theory Spec2Isabelle
  imports Complex_Main
begin

section \<open>Grid gesture translator: \<^verbatim>\<open>table-block/view/operation.ts\<close>\<close>

text \<open>
  The handlers returned by \<^verbatim>\<open>useOperation(refs, ctx, getPos)\<close> read the refs and the
  editor context and send commands to the command manager (\<^verbatim>\<open>commands.call\<close>).
  Hover indices and document positions are integers.
\<close>

datatype direction = AlignLeft | AlignCenter | AlignRight

text \<open>The command keys the handlers call, with the payload they pass
  (\<^verbatim>\<open>{ pos, index }\<close> for the two select commands).\<close>

datatype command =
    selectRowCommand int int
  | selectColCommand int int
  | addRowBeforeCommand
  | addRowAfterCommand
  | addColBeforeCommand
  | addColAfterCommand
  | deleteSelectedCellsCommand
  | setAlignCommand direction

text \<open>What a handler or a method can throw: a lookup that fails in the context
  (\<^verbatim>\<open>ctx.get\<close>), or a command that fails in the command manager.\<close>

datatype error = ContextNotFound string | CommandFailed command

text \<open>A handler or method that may throw after it has changed something: \<open>Inr\<close> is the
  state it returns with, \<open>Inl\<close> the error together with the state reached when it was
  thrown. \<open>reached\<close> is the state left behind either way.\<close>

definition reached :: "(error \<times> 'a) + 'a \<Rightarrow> 'a" where
  "reached r = (case r of Inl (e, x) \<Rightarrow> x | Inr x \<Rightarrow> x)"

text \<open>An element of which the handlers only touch \<^verbatim>\<open>dataset.show\<close>
  (\<open>None\<close>: the attribute is not set).\<close>

record htmlElement =
  dataset_show :: "string option"

text \<open>A row or column handle; \<open>buttonGroup\<close> is the result of
  \<^verbatim>\<open>querySelector('.button-group')\<close> on it.\<close>

record handleElement =
  buttonGroup :: "htmlElement option"

text \<open>The content wrapper: its \<^verbatim>\<open>tr\<close> descendants in document order, each given by the
  number of its children.\<close>

record contentWrapper =
  trs :: "nat list"

record refs =
  xLineHandleRef :: "htmlElement option"
  contentWrapperRef :: "contentWrapper option"
  colHandleRef :: "handleElement option"
  rowHandleRef :: "handleElement option"
  hoverIndex :: "int \<times> int"
  lineHoverIndex :: "int \<times> int"

text \<open>What the handlers reach through \<^verbatim>\<open>ctx\<close>: the view's \<^verbatim>\<open>editable\<close> flag, the calls of
  \<^verbatim>\<open>commands.call\<close> made so far (oldest first), and the number of \<^verbatim>\<open>focus()\<close> calls on the
  view.

  Modelled from the spec: the command manager (\<^verbatim>\<open>commandsCtx\<close> of the core package is not
  among the source files). The spec has \<^verbatim>\<open>call(commandId, args?)\<close> run synchronously, and a
  failing command is not handled by the handlers: it propagates to their caller.
  \<open>throws log cmd\<close> tells whether the call of \<open>cmd\<close> throws when \<open>log\<close> are the calls made
  before it.\<close>

record ctx =
  editable :: bool
  calls :: "command list"
  focusCount :: nat
  throws :: "command list \<Rightarrow> command \<Rightarrow> bool"

record pointerEvent =
  preventDefaultCalled :: bool
  stopPropagationCalled :: bool

text \<open>The closure of \<^verbatim>\<open>useOperation\<close>: \<open>op_ctx\<close> is the optional \<^verbatim>\<open>ctx\<close> argument;
  \<open>getPos\<close> is the optional \<^verbatim>\<open>getPos\<close> argument with the value it returns now
  (\<open>None\<close>: no function given; \<open>Some None\<close>: it returns \<^verbatim>\<open>undefined\<close>);
  \<open>animationFrames\<close> counts the callbacks queued with \<^verbatim>\<open>requestAnimationFrame\<close>,
  each of which focuses the view.\<close>

record operation =
  op_refs :: refs
  op_ctx :: "ctx option"
  getPos :: "int option option"
  animationFrames :: nat

text \<open>\<^verbatim>\<open>commands.call(key, payload)\<close>: the call is made, and it returns or throws.\<close>

definition commands_call :: "command \<Rightarrow> ctx \<Rightarrow> (error \<times> ctx) + ctx" where
  "commands_call cmd c =
     (if throws c (calls c) cmd
      then Inl (CommandFailed cmd, c\<lparr>calls := calls c @ [cmd]\<rparr>)
      else Inr (c\<lparr>calls := calls c @ [cmd]\<rparr>))"

text \<open>The next statement runs only when the one before it has returned.\<close>

definition and_then ::
  "(error \<times> ctx) + ctx \<Rightarrow> (ctx \<Rightarrow> (error \<times> ctx) + ctx) \<Rightarrow> (error \<times> ctx) + ctx" where
  "and_then r f = (case r of Inl x \<Rightarrow> Inl x | Inr c \<Rightarrow> f c)"

text \<open>\<^verbatim>\<open>dataset.show === 'true' ? 'false' : 'true'\<close>\<close>

definition toggled :: "string option \<Rightarrow> string option" where
  "toggled v = (if v = Some ''true'' then Some ''false'' else Some ''true'')"

text \<open>In the handlers below, \<open>rows\<close> is
  \<^verbatim>\<open>Array.from(contentWrapperRef.value?.querySelectorAll('tr') ?? [])\<close>, \<open>cols\<close> is the number
  of \<^verbatim>\<open>contentWrapperRef.value?.querySelector('tr')?.children ?? []\<close>, and \<open>pos\<close> is
  \<^verbatim>\<open>(getPos?.() ?? 0) + 1\<close>.\<close>

definition onAddRow :: "operation \<Rightarrow> (error \<times> operation) + operation" where
  "onAddRow s =
     (case op_ctx s of
        None \<Rightarrow> Inr s
      | Some c \<Rightarrow>
          (case xLineHandleRef (op_refs s) of
             None \<Rightarrow> Inr s
           | Some xHandle \<Rightarrow>
               (let rowIndex = fst (lineHoverIndex (op_refs s)) in
                if rowIndex < 0 then Inr s
                else if \<not> editable c then Inr s
                else
                  (let rows = (case contentWrapperRef (op_refs s) of
                                 None \<Rightarrow> []
                               | Some w \<Rightarrow> trs w);
                       pos = (case getPos s of
                                None \<Rightarrow> 0
                              | Some None \<Rightarrow> 0
                              | Some (Some p) \<Rightarrow> p) + 1;
                       r1 = (if int (length rows) = rowIndex
                             then and_then
                                    (commands_call (selectRowCommand pos (rowIndex - 1)) c)
                                    (commands_call addRowAfterCommand)
                             else and_then
                                    (commands_call (selectRowCommand pos rowIndex) c)
                                    (commands_call addRowBeforeCommand));
                       r2 = and_then r1 (commands_call (selectRowCommand pos rowIndex))
                   in case r2 of
                        Inl (e, c') \<Rightarrow> Inl (e, s\<lparr>op_ctx := Some c'\<rparr>)
                      | Inr c' \<Rightarrow>
                          Inr (s\<lparr>op_ctx := Some c',
                                 op_refs := (op_refs s)
                                   \<lparr>xLineHandleRef :=
                                      Some (xHandle\<lparr>dataset_show := Some ''false''\<rparr>)\<rparr>\<rparr>)))))"

definition onAddCol :: "operation \<Rightarrow> (error \<times> operation) + operation" where
  "onAddCol s =
     (case op_ctx s of
        None \<Rightarrow> Inr s
      | Some c \<Rightarrow>
          (case xLineHandleRef (op_refs s) of
             None \<Rightarrow> Inr s
           | Some xHandle \<Rightarrow>
               (let colIndex = snd (lineHoverIndex (op_refs s)) in
                if colIndex < 0 then Inr s
                else if \<not> editable c then Inr s
                else
                  (let cols = (case contentWrapperRef (op_refs s) of
                                 None \<Rightarrow> 0
                               | Some w \<Rightarrow> (case trs w of [] \<Rightarrow> 0 | tr # _ \<Rightarrow> tr));
                       pos = (case getPos s of
                                None \<Rightarrow> 0
                              | Some None \<Rightarrow> 0
                              | Some (Some p) \<Rightarrow> p) + 1;
                       r1 = (if int cols = colIndex
                             then and_then
                                    (commands_call (selectColCommand pos (colIndex - 1)) c)
                                    (commands_call addColAfterCommand)
                             else and_then
                                    (commands_call (selectColCommand pos colIndex) c)
                                    (commands_call addColBeforeCommand));
                       r2 = and_then r1 (commands_call (selectColCommand pos colIndex))
                   in case r2 of
                        Inl (e, c') \<Rightarrow> Inl (e, s\<lparr>op_ctx := Some c'\<rparr>)
                      | Inr c' \<Rightarrow> Inr (s\<lparr>op_ctx := Some c'\<rparr>)))))"

definition selectCol :: "operation \<Rightarrow> (error \<times> operation) + operation" where
  "selectCol s =
     (case op_ctx s of
        None \<Rightarrow> Inr s
      | Some c \<Rightarrow>
          (let colIndex = snd (hoverIndex (op_refs s));
               pos = (case getPos s of
                        None \<Rightarrow> 0
                      | Some None \<Rightarrow> 0
                      | Some (Some p) \<Rightarrow> p) + 1
           in case commands_call (selectColCommand pos colIndex) c of
                Inl (e, c') \<Rightarrow> Inl (e, s\<lparr>op_ctx := Some c'\<rparr>)
              | Inr c' \<Rightarrow>
                  (let s1 = s\<lparr>op_ctx := Some c'\<rparr>
                   in case colHandleRef (op_refs s) of
                        None \<Rightarrow> Inr s1
                      | Some h \<Rightarrow>
                          (case buttonGroup h of
                             None \<Rightarrow> Inr s1
                           | Some g \<Rightarrow>
                               Inr (s1\<lparr>op_refs := (op_refs s)
                                 \<lparr>colHandleRef :=
                                    Some (h\<lparr>buttonGroup :=
                                      Some (g\<lparr>dataset_show :=
                                        toggled (dataset_show g)\<rparr>)\<rparr>)\<rparr>\<rparr>)))))"

definition selectRow :: "operation \<Rightarrow> (error \<times> operation) + operation" where
  "selectRow s =
     (case op_ctx s of
        None \<Rightarrow> Inr s
      | Some c \<Rightarrow>
          (let rowIndex = fst (hoverIndex (op_refs s));
               pos = (case getPos s of
                        None \<Rightarrow> 0
                      | Some None \<Rightarrow> 0
                      | Some (Some p) \<Rightarrow> p) + 1
           in case commands_call (selectRowCommand pos rowIndex) c of
                Inl (e, c') \<Rightarrow> Inl (e, s\<lparr>op_ctx := Some c'\<rparr>)
              | Inr c' \<Rightarrow>
                  (let s1 = s\<lparr>op_ctx := Some c'\<rparr>
                   in case rowHandleRef (op_refs s) of
                        None \<Rightarrow> Inr s1
                      | Some h \<Rightarrow>
                          (case buttonGroup h of
                             None \<Rightarrow> Inr s1
                           | Some g \<Rightarrow>
                               if rowIndex > 0
                               then Inr (s1\<lparr>op_refs := (op_refs s)
                                 \<lparr>rowHandleRef :=
                                    Some (h\<lparr>buttonGroup :=
                                      Some (g\<lparr>dataset_show :=
                                        toggled (dataset_show g)\<rparr>)\<rparr>)\<rparr>\<rparr>)
                               else Inr s1))))"

text \<open>\<^verbatim>\<open>deleteSelected\<close> and \<^verbatim>\<open>onAlign\<close>: the event is marked before the command is called,
  the frame callback is queued after it has returned.\<close>

definition deleteSelected ::
  "pointerEvent \<Rightarrow> operation \<Rightarrow> (error \<times> pointerEvent \<times> operation) + pointerEvent \<times> operation" where
  "deleteSelected e s =
     (case op_ctx s of
        None \<Rightarrow> Inr (e, s)
      | Some c \<Rightarrow>
          if \<not> editable c then Inr (e, s)
          else
            (let e1 = e\<lparr>preventDefaultCalled := True, stopPropagationCalled := True\<rparr>
             in case commands_call deleteSelectedCellsCommand c of
                  Inl (err, c') \<Rightarrow> Inl (err, e1, s\<lparr>op_ctx := Some c'\<rparr>)
                | Inr c' \<Rightarrow>
                    Inr (e1, s\<lparr>op_ctx := Some c',
                                animationFrames := Suc (animationFrames s)\<rparr>)))"

definition onAlign ::
  "direction \<Rightarrow> pointerEvent \<Rightarrow> operation \<Rightarrow>
     (error \<times> pointerEvent \<times> operation) + pointerEvent \<times> operation" where
  "onAlign dir e s =
     (case op_ctx s of
        None \<Rightarrow> Inr (e, s)
      | Some c \<Rightarrow>
          if \<not> editable c then Inr (e, s)
          else
            (let e1 = e\<lparr>preventDefaultCalled := True, stopPropagationCalled := True\<rparr>
             in case commands_call (setAlignCommand dir) c of
                  Inl (err, c') \<Rightarrow> Inl (err, e1, s\<lparr>op_ctx := Some c'\<rparr>)
                | Inr c' \<Rightarrow>
                    Inr (e1, s\<lparr>op_ctx := Some c',
                                animationFrames := Suc (animationFrames s)\<rparr>)))"

text \<open>One queued animation-frame callback of \<^verbatim>\<open>deleteSelected\<close> or \<^verbatim>\<open>onAlign\<close> runs:
  \<^verbatim>\<open>ctx.get(editorViewCtx).focus()\<close>.\<close>

definition focusFrame :: "operation \<Rightarrow> operation" where
  "focusFrame s =
     (case animationFrames s of
        0 \<Rightarrow> s
      | Suc n \<Rightarrow>
          s\<lparr>animationFrames := n,
            op_ctx := map_option (\<lambda>c. c\<lparr>focusCount := Suc (focusCount c)\<rparr>) (op_ctx s)\<rparr>)"

text \<open>The calls of \<^verbatim>\<open>commands.call\<close> as seen from the closure (none without a context).\<close>

definition issued :: "operation \<Rightarrow> command list" where
  "issued s = (case op_ctx s of None \<Rightarrow> [] | Some c \<Rightarrow> calls c)"

subsection \<open>A three-row table, used to run the handlers\<close>

text \<open>Three rows of two cells, the grid at position 7, the gridline handle shown, and a
  command manager (\<open>ctx3\<close>) in which no command throws.\<close>

definition ctx3 :: "bool \<Rightarrow> ctx" where
  "ctx3 ed = \<lparr>editable = ed, calls = [], focusCount = 0, throws = (\<lambda>log cmd. False)\<rparr>"

definition table3 :: "int \<times> int \<Rightarrow> int \<times> int \<Rightarrow> bool \<Rightarrow> operation" where
  "table3 hover lineHover ed =
     \<lparr>op_refs =
        \<lparr>xLineHandleRef = Some \<lparr>dataset_show = Some ''true''\<rparr>,
         contentWrapperRef = Some \<lparr>trs = [2, 2, 2]\<rparr>,
         colHandleRef = Some \<lparr>buttonGroup = Some \<lparr>dataset_show = None\<rparr>\<rparr>,
         rowHandleRef = Some \<lparr>buttonGroup = Some \<lparr>dataset_show = Some ''true''\<rparr>\<rparr>,
         hoverIndex = hover,
         lineHoverIndex = lineHover\<rparr>,
      op_ctx = Some (ctx3 ed),
      getPos = Some (Some 7),
      animationFrames = 0\<rparr>"

text \<open>The same table, editable, with the gridline hover on the header row, in a command
  manager where the select that follows an insertion before the header row throws.\<close>

definition ctxHeaderThrows :: ctx where
  "ctxHeaderThrows =
     \<lparr>editable = True, calls = [], focusCount = 0,
      throws = (\<lambda>log cmd. log = [selectRowCommand 8 0, addRowBeforeCommand])\<rparr>"

definition table3HeaderThrows :: operation where
  "table3HeaderThrows = (table3 (-1, -1) (0, -1) True)\<lparr>op_ctx := Some ctxHeaderThrows\<rparr>"

section \<open>Floating handle controller: the class \<^verbatim>\<open>BlockProvider\<close>\<close>

text \<open>
  The provider owns one floating element and talks to three collaborators that are not
  part of the class: the editor context (\<^verbatim>\<open>ctx.get\<close>), the block service it binds to, and
  floating-ui's \<^verbatim>\<open>computePosition\<close>. Host elements other than the floating element are
  opaque handles.
\<close>

type_synonym elementRef = nat

record domRect =
  rect_x :: real
  rect_y :: real
  rect_width :: real
  rect_height :: real

text \<open>Modelled from the spec: the type \<^verbatim>\<open>ActiveNode\<close> (\<^verbatim>\<open>./types\<close> is not among the source
  files): an element handle, a document position and the element's on-screen rectangle
  (what \<^verbatim>\<open>el.getBoundingClientRect()\<close> returns). The class reads \<^verbatim>\<open>active.el\<close> only.\<close>

record activeNode =
  el :: elementRef
  documentPosition :: int
  el_boundingClientRect :: domRect

text \<open>floating-ui's \<^verbatim>\<open>Placement\<close> is a string literal type; \<^verbatim>\<open>OffsetOptions\<close> is passed
  through to \<^verbatim>\<open>offset()\<close> unread.\<close>

type_synonym placement = string

datatype offsetOptions = OffsetOptions real

text \<open>A layout rule: \<^verbatim>\<open>flip()\<close>, \<^verbatim>\<open>offset(options)\<close>, or any other \<^verbatim>\<open>Middleware\<close> object a
  caller builds, given by its name.\<close>

datatype middleware = Flip | Offset offsetOptions | Middleware string

text \<open>\<^verbatim>\<open>Partial<ComputePositionConfig>\<close>: every key is optional (\<open>None\<close>: the key is absent).
  The same record is the configuration object handed to \<^verbatim>\<open>computePosition\<close>.\<close>

record computePositionConfig =
  cfg_placement :: "placement option"
  cfg_middleware :: "middleware list option"
  cfg_strategy :: "string option"
  cfg_platform :: "nat option"

text \<open>Object spread \<^verbatim>\<open>{ ...base, ...over }\<close>: a key of \<open>over\<close> wins.\<close>

definition spread :: "computePositionConfig \<Rightarrow> computePositionConfig \<Rightarrow> computePositionConfig" where
  "spread base over =
     \<lparr>cfg_placement = (case cfg_placement over of None \<Rightarrow> cfg_placement base | Some p \<Rightarrow> Some p),
      cfg_middleware = (case cfg_middleware over of None \<Rightarrow> cfg_middleware base | Some m \<Rightarrow> Some m),
      cfg_strategy = (case cfg_strategy over of None \<Rightarrow> cfg_strategy base | Some t \<Rightarrow> Some t),
      cfg_platform = (case cfg_platform over of None \<Rightarrow> cfg_platform base | Some f \<Rightarrow> Some f)\<rparr>"

text \<open>A length written by the template \<^verbatim>\<open>`${x}px`\<close>.\<close>

datatype css_length = px real

text \<open>The floating element (\<^verbatim>\<open>#element\<close>): \<^verbatim>\<open>dataset.show\<close>, the parent it is attached to
  (\<open>None\<close>: detached), \<^verbatim>\<open>style.left\<close> and \<^verbatim>\<open>style.top\<close>, \<^verbatim>\<open>draggable\<close>, and whether it
  carries the listeners that the service's \<^verbatim>\<open>addEvent\<close> attaches.\<close>

record floatingElement = htmlElement +
  parentElement :: "elementRef option"
  style_left :: "css_length option"
  style_top :: "css_length option"
  draggable :: bool
  serviceEvents :: bool

text \<open>\<^verbatim>\<open>DeriveContext\<close> without its \<^verbatim>\<open>ctx\<close> field (the context is part of the world below);
  \<open>dc_blockDom\<close> is the floating element as it is when \<^verbatim>\<open>show\<close> runs.\<close>

record deriveContext =
  dc_active :: activeNode
  dc_editorDom :: elementRef
  dc_blockDom :: floatingElement

text \<open>The virtual reference element, with the rectangle its \<^verbatim>\<open>getBoundingClientRect\<close>
  returns.\<close>

record virtualElement =
  contextElement :: elementRef
  boundingClientRect :: domRect

text \<open>The fields of the class (the context \<^verbatim>\<open>#ctx\<close> is part of the world below).
  \<open>service\<close> tells whether \<^verbatim>\<open>#service\<close> holds the block service.\<close>

record blockProvider =
  element :: floatingElement
  service :: bool
  activeNode :: "activeNode option"
  root_container :: "elementRef option"
  initialized :: bool
  middleware :: "middleware list"
  floatingUIOptions :: computePositionConfig
  getOffset :: "(deriveContext \<Rightarrow> offsetOptions) option"
  getPosition :: "(deriveContext \<Rightarrow> domRect) option"
  getPlacement :: "(deriveContext \<Rightarrow> placement) option"

text \<open>\<^verbatim>\<open>BlockProviderOptions\<close> (\<^verbatim>\<open>ctx\<close> apart; \<^verbatim>\<open>shouldShow\<close> is never read by the class).\<close>

record blockProviderOptions =
  opt_content :: floatingElement
  opt_getOffset :: "(deriveContext \<Rightarrow> offsetOptions) option"
  opt_getPosition :: "(deriveContext \<Rightarrow> domRect) option"
  opt_getPlacement :: "(deriveContext \<Rightarrow> placement) option"
  opt_middleware :: "middleware list option"
  opt_floatingUIOptions :: "computePositionConfig option"
  opt_root :: "elementRef option"

text \<open>Who sits in the service's callback slot: the handler this provider passes to
  \<^verbatim>\<open>bind\<close> in \<^verbatim>\<open>#init\<close>, or somebody else's.\<close>

datatype handler = providerHandler | otherHandler nat

text \<open>Modelled from the spec: the block service (\<^verbatim>\<open>./block-service\<close> is not among the source
  files). The spec gives it one callback slot: \<^verbatim>\<open>bind\<close> writes the slot (last write wins),
  \<^verbatim>\<open>unBind\<close> empties it and tolerates repeated calls; \<^verbatim>\<open>addEvent\<close> and \<^verbatim>\<open>removeEvent\<close>
  attach and remove the gesture listeners of an element (the flag \<open>serviceEvents\<close>).\<close>

record blockService =
  notify :: "handler option"

definition bind :: "handler \<Rightarrow> blockService \<Rightarrow> blockService" where
  "bind h sv = sv\<lparr>notify := Some h\<rparr>"

definition unBind :: "blockService \<Rightarrow> blockService" where
  "unBind sv = sv\<lparr>notify := None\<rparr>"

definition addEvent :: "floatingElement \<Rightarrow> floatingElement" where
  "addEvent e = e\<lparr>serviceEvents := True\<rparr>"

definition removeEvent :: "floatingElement \<Rightarrow> floatingElement" where
  "removeEvent e = e\<lparr>serviceEvents := False\<rparr>"

record editorView =
  view_dom :: elementRef
  view_dom_parentElement :: "elementRef option"

text \<open>Modelled from the spec: \<^verbatim>\<open>ctx.get\<close> (the context package is not among the source
  files). The spec's initialization failure is a lookup in a context that does not hold
  the slice yet (the editor surface is not mounted): the lookup throws
  \<open>ContextNotFound\<close>.\<close>

text \<open>
  The provider with everything it reaches:
  \<^item> \<open>editorViewCtx\<close>: the view, when the context holds it;
  \<^item> \<open>blockService\<close>: the service object, and \<open>blockServiceInCtx\<close>: whether the context
    holds it (\<^verbatim>\<open>blockServiceInstance.key\<close>);
  \<^item> \<open>document_body\<close>;
  \<^item> \<open>rafQueue\<close>: the callbacks of \<^verbatim>\<open>update\<close> queued with \<^verbatim>\<open>requestAnimationFrame\<close>;
  \<^item> \<open>computePositionCalls\<close>: the calls of \<^verbatim>\<open>computePosition\<close>, oldest first, and
    \<open>pendingPositions\<close>: how many of their promises are not settled yet;
  \<^item> \<open>console_error\<close>: what was passed to \<^verbatim>\<open>console.error\<close>.
\<close>

record world =
  provider :: blockProvider
  editorViewCtx :: "editorView option"
  blockService :: blockService
  blockServiceInCtx :: bool
  document_body :: elementRef
  rafQueue :: nat
  computePositionCalls :: "(virtualElement \<times> computePositionConfig) list"
  pendingPositions :: nat
  console_error :: "string list"

definition map_element :: "(floatingElement \<Rightarrow> floatingElement) \<Rightarrow> world \<Rightarrow> world" where
  "map_element f w = w\<lparr>provider := (provider w)\<lparr>element := f (element (provider w))\<rparr>\<rparr>"

definition BlockProvider_hide :: "world \<Rightarrow> world" where
  "BlockProvider_hide w = map_element (\<lambda>e. e\<lparr>dataset_show := Some ''false''\<rparr>) w"

text \<open>The constructor: the fields from the options, then \<^verbatim>\<open>this.hide()\<close>.\<close>

definition BlockProvider_new :: "blockProviderOptions \<Rightarrow> blockProvider" where
  "BlockProvider_new options =
     \<lparr>element = (opt_content options)\<lparr>dataset_show := Some ''false''\<rparr>,
      service = False,
      activeNode = None,
      root_container = opt_root options,
      initialized = False,
      middleware = (case opt_middleware options of None \<Rightarrow> [] | Some ms \<Rightarrow> ms),
      floatingUIOptions =
        (case opt_floatingUIOptions options of
           None \<Rightarrow> \<lparr>cfg_placement = None, cfg_middleware = None,
                     cfg_strategy = None, cfg_platform = None\<rparr>
         | Some c \<Rightarrow> c),
      getOffset = opt_getOffset options,
      getPosition = opt_getPosition options,
      getPlacement = opt_getPlacement options\<rparr>"

text \<open>\<^verbatim>\<open>#init\<close>. A throw leaves what was done before it: the result is the error with the
  state reached, or the state after the last statement.\<close>

definition BlockProvider_init :: "world \<Rightarrow> (error \<times> world) + world" where
  "BlockProvider_init w =
     (case editorViewCtx w of
        None \<Rightarrow> Inl (ContextNotFound ''editorView'', w)
      | Some view \<Rightarrow>
          (let root =
                 (case root_container (provider w) of
                    Some r \<Rightarrow> r
                  | None \<Rightarrow>
                      (case view_dom_parentElement view of
                         Some r \<Rightarrow> r
                       | None \<Rightarrow> document_body w));
               w1 = map_element (\<lambda>e. e\<lparr>parentElement := Some root\<rparr>) w
           in if \<not> blockServiceInCtx w1 then Inl (ContextNotFound ''blockService'', w1)
              else
                (let w2 = w1\<lparr>blockService := bind providerHandler (blockService w1)\<rparr>;
                     w3 = w2\<lparr>provider := (provider w2)\<lparr>service := True\<rparr>\<rparr>;
                     w4 = map_element addEvent w3;
                     w5 = map_element (\<lambda>e. e\<lparr>draggable := True\<rparr>) w4
                 in Inr w5)))"

text \<open>The callback that \<^verbatim>\<open>update\<close> queues: \<^verbatim>\<open>try { this.#init(); this.#initialized = true }
  catch { }\<close> unless already initialized.\<close>

definition updateCallback :: "world \<Rightarrow> world" where
  "updateCallback w =
     (if \<not> initialized (provider w)
      then (case BlockProvider_init w of
              Inr w' \<Rightarrow> w'\<lparr>provider := (provider w')\<lparr>initialized := True\<rparr>\<rparr>
            | Inl (e, w') \<Rightarrow> w')
      else w)"

definition BlockProvider_update :: "world \<Rightarrow> world" where
  "BlockProvider_update w = w\<lparr>rafQueue := Suc (rafQueue w)\<rparr>"

text \<open>The next animation frame: the queued callbacks run, first in first out.\<close>

definition animationFrame :: "world \<Rightarrow> world" where
  "animationFrame w = (updateCallback ^^ rafQueue w) (w\<lparr>rafQueue := 0\<rparr>)"

text \<open>One call of \<^verbatim>\<open>update\<close> followed by the animation frame that runs what it queued.\<close>

definition updatePass :: "world \<Rightarrow> world" where
  "updatePass w = animationFrame (BlockProvider_update w)"

text \<open>\<^verbatim>\<open>destroy\<close>: the two calls on \<^verbatim>\<open>#service\<close> are skipped by \<^verbatim>\<open>?.\<close> when the field is not set;
  \<^verbatim>\<open>remove()\<close> detaches the element. No statement of it can throw, so the result is
  always \<open>Inr\<close>.\<close>

definition BlockProvider_destroy :: "world \<Rightarrow> error + world" where
  "BlockProvider_destroy w =
     (let w1 = (if service (provider w) then w\<lparr>blockService := unBind (blockService w)\<rparr> else w);
          w2 = (if service (provider w1) then map_element removeEvent w1 else w1);
          w3 = map_element (\<lambda>e. e\<lparr>parentElement := None\<rparr>) w2
      in Inr w3)"

definition mkDeriveContext :: "activeNode \<Rightarrow> editorView \<Rightarrow> blockProvider \<Rightarrow> deriveContext" where
  "mkDeriveContext active view p =
     \<lparr>dc_active = active, dc_editorDom = view_dom view, dc_blockDom = element p\<rparr>"

text \<open>\<^verbatim>\<open>show\<close>, up to the call of \<^verbatim>\<open>computePosition\<close>: the call is recorded and its promise
  is pending. \<^verbatim>\<open>ctx.get(editorViewCtx)\<close> throws when there is no view.\<close>

definition BlockProvider_show :: "activeNode \<Rightarrow> world \<Rightarrow> error + world" where
  "BlockProvider_show active w =
     (case editorViewCtx w of
        None \<Rightarrow> Inl (ContextNotFound ''editorView'')
      | Some view \<Rightarrow>
          (let p = provider w;
               dc = mkDeriveContext active view p;
               virtualEl =
                 \<lparr>contextElement = el active,
                  boundingClientRect =
                    (case getPosition p of
                       Some f \<Rightarrow> f dc
                     | None \<Rightarrow> el_boundingClientRect active)\<rparr>;
               mw = (case getOffset p of
                       Some f \<Rightarrow> [Flip] @ [Offset (f dc)]
                     | None \<Rightarrow> [Flip]);
               config =
                 spread
                   \<lparr>cfg_placement =
                      Some (case getPlacement p of Some f \<Rightarrow> f dc | None \<Rightarrow> ''left''),
                    cfg_middleware = Some (mw @ middleware p),
                    cfg_strategy = None,
                    cfg_platform = None\<rparr>
                   (floatingUIOptions p)
           in Inr (w\<lparr>computePositionCalls := computePositionCalls w @ [(virtualEl, config)],
                     pendingPositions := Suc (pendingPositions w)\<rparr>)))"

text \<open>How a pending promise of \<^verbatim>\<open>computePosition\<close> settles.\<close>

datatype settlement = Fulfilled real real | Rejected string

text \<open>The \<^verbatim>\<open>.then\<close> callback of \<^verbatim>\<open>show\<close>.\<close>

definition onFulfilled :: "real \<Rightarrow> real \<Rightarrow> world \<Rightarrow> world" where
  "onFulfilled x y w =
     map_element (\<lambda>e. e\<lparr>dataset_show := Some ''true''\<rparr>)
       (map_element (\<lambda>e. e\<lparr>style_left := Some (px x), style_top := Some (px y)\<rparr>) w)"

text \<open>The \<^verbatim>\<open>.catch\<close> callback of \<^verbatim>\<open>show\<close>: \<^verbatim>\<open>console.error\<close>.\<close>

definition onRejected :: "string \<Rightarrow> world \<Rightarrow> world" where
  "onRejected err w = w\<lparr>console_error := console_error w @ [err]\<rparr>"

text \<open>One pending promise settles and its callback runs; \<open>None\<close> when no computation is
  pending.\<close>

definition positionSettled :: "settlement \<Rightarrow> world \<Rightarrow> world option" where
  "positionSettled r w =
     (case pendingPositions w of
        0 \<Rightarrow> None
      | Suc n \<Rightarrow>
          Some (case r of
                  Fulfilled x y \<Rightarrow> onFulfilled x y (w\<lparr>pendingPositions := n\<rparr>)
                | Rejected err \<Rightarrow> onRejected err (w\<lparr>pendingPositions := n\<rparr>)))"

text \<open>The handler bound in \<^verbatim>\<open>#init\<close>. When \<^verbatim>\<open>show\<close> throws, the assignment after it is not
  reached.\<close>

datatype message = HideMessage | ShowMessage activeNode

definition onMessage :: "message \<Rightarrow> world \<Rightarrow> error + world" where
  "onMessage m w =
     (case m of
        HideMessage \<Rightarrow>
          (let w1 = BlockProvider_hide w
           in Inr (w1\<lparr>provider := (provider w1)\<lparr>activeNode := None\<rparr>\<rparr>))
      | ShowMessage active \<Rightarrow>
          (case BlockProvider_show active w of
             Inl e \<Rightarrow> Inl e
           | Inr w1 \<Rightarrow> Inr (w1\<lparr>provider := (provider w1)\<lparr>activeNode := Some active\<rparr>\<rparr>)))"

text \<open>The middleware list of the latest \<^verbatim>\<open>computePosition\<close> call (empty when the key is
  absent from the configuration, floating-ui's default, or when \<^verbatim>\<open>show\<close> threw).\<close>

definition passedMiddleware :: "error + world \<Rightarrow> middleware list" where
  "passedMiddleware r =
     (case r of
        Inl _ \<Rightarrow> []
      | Inr w \<Rightarrow>
          (case rev (computePositionCalls w) of
             [] \<Rightarrow> []
           | c # _ \<Rightarrow> (case cfg_middleware (snd c) of None \<Rightarrow> [] | Some ms \<Rightarrow> ms)))"

text \<open>The spec's reading of the middleware list: the flip rule is its first entry.\<close>

definition flipFirst :: "middleware list \<Rightarrow> bool" where
  "flipFirst ms = (case ms of [] \<Rightarrow> False | m # _ \<Rightarrow> m = Flip)"

text \<open>The invariant behind teardown: the service's slot holds this provider's handler
  only when \<^verbatim>\<open>#service\<close> is set.\<close>

definition subscriptionOwned :: "world \<Rightarrow> bool" where
  "subscriptionOwned w =
     (if notify (blockService w) = Some providerHandler then service (provider w) else True)"

text \<open>The states a provider can be in: built by the constructor in a world whose service
  is not bound to it, then any sequence of its methods and callbacks, and of moves of the
  surroundings (the view or the service enters or leaves the context, somebody else binds
  to or unbinds from the service).\<close>

inductive reachable :: "world \<Rightarrow> bool" where
  start: "notify sv \<noteq> Some providerHandler \<Longrightarrow>
      reachable \<lparr>provider = BlockProvider_new options, editorViewCtx = view,
        blockService = sv, blockServiceInCtx = b, document_body = body, rafQueue = 0,
        computePositionCalls = [], pendingPositions = 0, console_error = []\<rparr>"
| env_view: "reachable w \<Longrightarrow> reachable (w\<lparr>editorViewCtx := view\<rparr>)"
| env_service: "reachable w \<Longrightarrow> reachable (w\<lparr>blockServiceInCtx := b\<rparr>)"
| env_bind: "reachable w \<Longrightarrow>
      reachable (w\<lparr>blockService := bind (otherHandler k) (blockService w)\<rparr>)"
| env_unBind: "reachable w \<Longrightarrow> reachable (w\<lparr>blockService := unBind (blockService w)\<rparr>)"
| update: "reachable w \<Longrightarrow> reachable (BlockProvider_update w)"
| frame: "reachable w \<Longrightarrow> reachable (animationFrame w)"
| show_block: "reachable w \<Longrightarrow> BlockProvider_show a w = Inr w' \<Longrightarrow> reachable w'"
| hide: "reachable w \<Longrightarrow> reachable (BlockProvider_hide w)"
| destroy: "reachable w \<Longrightarrow> BlockProvider_destroy w = Inr w' \<Longrightarrow> reachable w'"
| settled: "reachable w \<Longrightarrow> positionSettled r w = Some w' \<Longrightarrow> reachable w'"
| message: "reachable w \<Longrightarrow> notify (blockService w) = Some providerHandler \<Longrightarrow>
      onMessage m w = Inr w' \<Longrightarrow> reachable w'"

subsection \<open>A provider in a small world, used to run the methods\<close>

definition content0 :: floatingElement where
  "content0 =
     \<lparr>dataset_show = None, parentElement = None, style_left = None, style_top = None,
      draggable = False, serviceEvents = False\<rparr>"

definition noOverrides :: computePositionConfig where
  "noOverrides =
     \<lparr>cfg_placement = None, cfg_middleware = None, cfg_strategy = None, cfg_platform = None\<rparr>"

text \<open>Options with an offset of 8, one extra rule and the given floating-ui overrides.\<close>

definition options0 :: "computePositionConfig option \<Rightarrow> blockProviderOptions" where
  "options0 overrides =
     \<lparr>opt_content = content0,
      opt_getOffset = Some (\<lambda>_. OffsetOptions 8),
      opt_getPosition = None,
      opt_getPlacement = None,
      opt_middleware = Some [Middleware ''shift''],
      opt_floatingUIOptions = overrides,
      opt_root = None\<rparr>"

text \<open>The world right after the constructor: element 1 is the document body; the service is
  in the context and nobody is bound to it.\<close>

definition world0 :: "computePositionConfig option \<Rightarrow> editorView option \<Rightarrow> world" where
  "world0 overrides view =
     \<lparr>provider = BlockProvider_new (options0 overrides),
      editorViewCtx = view,
      blockService = \<lparr>notify = None\<rparr>,
      blockServiceInCtx = True,
      document_body = 1,
      rafQueue = 0,
      computePositionCalls = [],
      pendingPositions = 0,
      console_error = []\<rparr>"

definition view0 :: editorView where
  "view0 = \<lparr>view_dom = 2, view_dom_parentElement = Some 3\<rparr>"

definition active0 :: activeNode where
  "active0 =
     \<lparr>el = 4, documentPosition = 10,
      el_boundingClientRect = \<lparr>rect_x = 0, rect_y = 0, rect_width = 100, rect_height = 20\<rparr>\<rparr>"

definition overrideMiddleware :: computePositionConfig where
  "overrideMiddleware = noOverrides\<lparr>cfg_middleware := Some [Middleware ''autoPlacement'']\<rparr>"

text \<open>The world \<open>world0 None (Some view0)\<close> after \<^verbatim>\<open>show\<close> of \<open>active0\<close>.\<close>

definition shown0 :: world where
  "shown0 =
     (world0 None (Some view0))
       \<lparr>computePositionCalls :=
          [(\<lparr>contextElement = 4,
              boundingClientRect =
                \<lparr>rect_x = 0, rect_y = 0, rect_width = 100, rect_height = 20\<rparr>\<rparr>,
            \<lparr>cfg_placement = Some ''left'',
             cfg_middleware = Some [Flip, Offset (OffsetOptions 8), Middleware ''shift''],
             cfg_strategy = None,
             cfg_platform = None\<rparr>)],
        pendingPositions := 1\<rparr>"

section \<open>Properties of the gesture translator\<close>

lemma issued_ctx: "op_ctx s = Some c \<Longrightarrow> issued s = calls c"
  by (simp add: issued_def)

lemma call_returns:
  "\<not> throws c (calls c) cmd \<Longrightarrow> commands_call cmd c = Inr (c\<lparr>calls := calls c @ [cmd]\<rparr>)"
  by (simp add: commands_call_def)


text \<open>Three calls in a row: the first that throws ends the sequence.\<close>

lemma three_calls:
  "and_then (and_then (commands_call cmd1 c) (commands_call cmd2)) (commands_call cmd3) =
     (if throws c (calls c) cmd1
      then Inl (CommandFailed cmd1, c\<lparr>calls := calls c @ [cmd1]\<rparr>)
      else if throws c (calls c @ [cmd1]) cmd2
      then Inl (CommandFailed cmd2, c\<lparr>calls := calls c @ [cmd1, cmd2]\<rparr>)
      else if throws c (calls c @ [cmd1, cmd2]) cmd3
      then Inl (CommandFailed cmd3, c\<lparr>calls := calls c @ [cmd1, cmd2, cmd3]\<rparr>)
      else Inr (c\<lparr>calls := calls c @ [cmd1, cmd2, cmd3]\<rparr>))"
  by (simp add: commands_call_def and_then_def)

text \<open>Past its guards, \<^verbatim>\<open>onAddRow\<close> is its three calls followed by the assignment to
  \<^verbatim>\<open>dataset.show\<close>, and \<^verbatim>\<open>onAddCol\<close> is its three calls.\<close>

lemma onAddRow_calls:
  assumes "op_ctx s = Some c" and "editable c"
    and "xLineHandleRef (op_refs s) = Some xHandle"
    and "fst (lineHoverIndex (op_refs s)) = rowIndex" and "0 \<le> rowIndex"
    and "rowCount = (case contentWrapperRef (op_refs s) of None \<Rightarrow> 0 | Some w \<Rightarrow> length (trs w))"
    and "pos = (case getPos s of None \<Rightarrow> 0 | Some None \<Rightarrow> 0 | Some (Some p) \<Rightarrow> p) + 1"
    and "cmd1 = selectRowCommand pos (if rowIndex = int rowCount then rowIndex - 1 else rowIndex)"
    and "cmd2 = (if rowIndex = int rowCount then addRowAfterCommand else addRowBeforeCommand)"
    and "cmd3 = selectRowCommand pos rowIndex"
  shows "onAddRow s =
      (case and_then (and_then (commands_call cmd1 c) (commands_call cmd2)) (commands_call cmd3) of
         Inl (e, c') \<Rightarrow> Inl (e, s\<lparr>op_ctx := Some c'\<rparr>)
       | Inr c' \<Rightarrow>
           Inr (s\<lparr>op_ctx := Some c',
                  op_refs := (op_refs s)
                    \<lparr>xLineHandleRef := Some (xHandle\<lparr>dataset_show := Some ''false''\<rparr>)\<rparr>\<rparr>))"
proof -
  have len: "length (case contentWrapperRef (op_refs s) of None \<Rightarrow> [] | Some w \<Rightarrow> trs w) =
      rowCount"
    using assms(6) by (simp split: option.splits)
  show ?thesis
  proof (cases "rowIndex = int rowCount")
    case True
    then show ?thesis
      using assms(1-5) assms(8-10)
      by (simp add: onAddRow_def Let_def len assms(7) [symmetric])
  next
    case False
    then have "int rowCount \<noteq> rowIndex" by simp
    then show ?thesis
      using False assms(1-5) assms(8-10)
      by (simp add: onAddRow_def Let_def len assms(7) [symmetric])
  qed
qed

lemma onAddCol_calls:
  assumes "op_ctx s = Some c" and "editable c"
    and "xLineHandleRef (op_refs s) = Some xHandle"
    and "snd (lineHoverIndex (op_refs s)) = colIndex" and "0 \<le> colIndex"
    and "colCount = (case contentWrapperRef (op_refs s) of
                       None \<Rightarrow> 0
                     | Some w \<Rightarrow> (case trs w of [] \<Rightarrow> 0 | tr # _ \<Rightarrow> tr))"
    and "pos = (case getPos s of None \<Rightarrow> 0 | Some None \<Rightarrow> 0 | Some (Some p) \<Rightarrow> p) + 1"
    and "cmd1 = selectColCommand pos (if colIndex = int colCount then colIndex - 1 else colIndex)"
    and "cmd2 = (if colIndex = int colCount then addColAfterCommand else addColBeforeCommand)"
    and "cmd3 = selectColCommand pos colIndex"
  shows "onAddCol s =
      (case and_then (and_then (commands_call cmd1 c) (commands_call cmd2)) (commands_call cmd3) of
         Inl (e, c') \<Rightarrow> Inl (e, s\<lparr>op_ctx := Some c'\<rparr>)
       | Inr c' \<Rightarrow> Inr (s\<lparr>op_ctx := Some c'\<rparr>))"
proof (cases "colIndex = int colCount")
  case True
  then show ?thesis
    using assms(1-5) assms(8-10)
    by (simp add: onAddCol_def Let_def assms(6) [symmetric] assms(7) [symmetric])
next
  case False
  then have "int colCount \<noteq> colIndex" by simp
  then show ?thesis
    using False assms(1-5) assms(8-10)
    by (simp add: onAddCol_def Let_def assms(6) [symmetric] assms(7) [symmetric])
qed

text \<open>\<^verbatim>\<open>onAddCol\<close> never writes to the refs.\<close>

lemma onAddCol_refs: "op_refs (reached (onAddCol s)) = op_refs s"
  by (simp add: onAddCol_def reached_def Let_def split: option.splits sum.splits prod.splits)



text \<open>
  C2. On a non-editable surface the four handlers that change the document (insert row,
  insert column, delete selection, set alignment) return with everything as it was: the
  calls of the command manager are those from before, so no command was sent, and the
  pointer event is untouched.
\<close>

theorem non_editable_no_command:
  assumes "op_ctx s = Some c" and "\<not> editable c"
  shows "onAddRow s = Inr s \<and> onAddCol s = Inr s
       \<and> deleteSelected e s = Inr (e, s) \<and> onAlign dir e s = Inr (e, s)
       \<and> issued (reached (onAddRow s)) = calls c
       \<and> issued (reached (onAddCol s)) = calls c
       \<and> issued (snd (reached (deleteSelected e s))) = calls c
       \<and> issued (snd (reached (onAlign dir e s))) = calls c"
proof -
  have row: "onAddRow s = Inr s"
    using assms by (simp add: onAddRow_def Let_def split: option.splits)
  have col: "onAddCol s = Inr s"
    using assms by (simp add: onAddCol_def Let_def split: option.splits)
  have del: "deleteSelected e s = Inr (e, s)"
    using assms by (simp add: deleteSelected_def)
  have al: "onAlign dir e s = Inr (e, s)"
    using assms by (simp add: onAlign_def)
  show ?thesis
    using assms(1) by (simp add: row col del al reached_def issued_ctx)
qed

theorem non_editable_no_command_witness:
  "onAddRow (table3 (1, 1) (1, 1) False) = Inr (table3 (1, 1) (1, 1) False)
   \<and> onAddCol (table3 (1, 1) (1, 1) False) = Inr (table3 (1, 1) (1, 1) False)
   \<and> deleteSelected \<lparr>preventDefaultCalled = False, stopPropagationCalled = False\<rparr>
        (table3 (1, 1) (1, 1) False) =
      Inr (\<lparr>preventDefaultCalled = False, stopPropagationCalled = False\<rparr>,
           table3 (1, 1) (1, 1) False)
   \<and> onAlign AlignCenter \<lparr>preventDefaultCalled = False, stopPropagationCalled = False\<rparr>
        (table3 (1, 1) (1, 1) False) =
      Inr (\<lparr>preventDefaultCalled = False, stopPropagationCalled = False\<rparr>,
           table3 (1, 1) (1, 1) False)
   \<and> issued (table3 (1, 1) (1, 1) False) = []"
proof -
  have c: "op_ctx (table3 (1, 1) (1, 1) False) = Some (ctx3 False)"
    by (simp add: table3_def)
  have ne: "\<not> editable (ctx3 False)"
    by (simp add: ctx3_def)
  have "issued (table3 (1, 1) (1, 1) False) = []"
    by (simp add: issued_def table3_def ctx3_def)
  then show ?thesis
    using non_editable_no_command [OF c ne,
        of "\<lparr>preventDefaultCalled = False, stopPropagationCalled = False\<rparr>" AlignCenter]
    by simp
qed

text \<open>On an editable surface \<^verbatim>\<open>deleteSelected\<close> and \<^verbatim>\<open>onAlign\<close> suppress the event's default
  handling and send their one command; when it returns they queue a frame callback, which
  focuses the view when it runs; when it throws, nothing is queued.\<close>

lemma editable_delete_and_align:
  assumes "op_ctx s = Some c" and "editable c"
  shows "(\<not> throws c (calls c) deleteSelectedCellsCommand \<longrightarrow>
            deleteSelected e s =
              Inr (e\<lparr>preventDefaultCalled := True, stopPropagationCalled := True\<rparr>,
                   s\<lparr>op_ctx := Some (c\<lparr>calls := calls c @ [deleteSelectedCellsCommand]\<rparr>),
                     animationFrames := Suc (animationFrames s)\<rparr>)
          \<and> op_ctx (focusFrame (snd (reached (deleteSelected e s)))) =
              Some (c\<lparr>calls := calls c @ [deleteSelectedCellsCommand],
                      focusCount := Suc (focusCount c)\<rparr>))
       \<and> (\<not> throws c (calls c) (setAlignCommand dir) \<longrightarrow>
            onAlign dir e s =
              Inr (e\<lparr>preventDefaultCalled := True, stopPropagationCalled := True\<rparr>,
                   s\<lparr>op_ctx := Some (c\<lparr>calls := calls c @ [setAlignCommand dir]\<rparr>),
                     animationFrames := Suc (animationFrames s)\<rparr>))
       \<and> (throws c (calls c) deleteSelectedCellsCommand \<longrightarrow>
            deleteSelected e s =
              Inl (CommandFailed deleteSelectedCellsCommand,
                   e\<lparr>preventDefaultCalled := True, stopPropagationCalled := True\<rparr>,
                   s\<lparr>op_ctx := Some (c\<lparr>calls := calls c @ [deleteSelectedCellsCommand]\<rparr>)\<rparr>))"
  using assms
  by (simp add: deleteSelected_def onAlign_def commands_call_def focusFrame_def reached_def)

text \<open>
  C3, as the spec states it, fails in its last part: insert-row does not always set the
  gridline handle's flag to hidden. The assignment to \<^verbatim>\<open>dataset.show\<close> is the last statement
  of \<^verbatim>\<open>onAddRow\<close> and nothing catches a throwing command, so when one of the three calls
  throws the flag keeps its value. Here the hover is on the header row and the select that
  follows the insertion throws: all three calls were made and the flag is still
  \<^verbatim>\<open>'true'\<close>.
\<close>

theorem onAddRow_flag_stays_counterexample:
  "onAddRow table3HeaderThrows =
     Inl (CommandFailed (selectRowCommand 8 0),
          table3HeaderThrows
            \<lparr>op_ctx := Some (ctxHeaderThrows
               \<lparr>calls := [selectRowCommand 8 0, addRowBeforeCommand, selectRowCommand 8 0]\<rparr>)\<rparr>)
   \<and> xLineHandleRef (op_refs (reached (onAddRow table3HeaderThrows))) =
       Some \<lparr>dataset_show = Some ''true''\<rparr>"
  by (simp add: onAddRow_def table3HeaderThrows_def table3_def ctxHeaderThrows_def
      commands_call_def and_then_def reached_def Let_def)

text \<open>
  C3, amended. Whatever the state, insert-column leaves the refs, and so the
  \<^verbatim>\<open>dataset.show\<close> flag of the gridline handle, as they were. With the context present, the
  surface editable and the gridline handle present:
  \<^item> for a column index of at least 0, insert-column runs the algorithm of insert-row on
    columns (\<open>colCount\<close> is the number of children of the first \<^verbatim>\<open>tr\<close>): select-col at
    \<open>colIndex - 1\<close> and insert-col-after when \<open>colIndex = colCount\<close>, otherwise select-col
    at \<open>colIndex\<close> and insert-col-before, then select-col at \<open>colIndex\<close>, the first two calls
    taken to return;
  \<^item> for a row index of at least 0, insert-row returns exactly when none of its three calls
    throws, and it sets the flag to \<^verbatim>\<open>'false'\<close> exactly then; when a call throws, the flag
    is as it was.
\<close>

theorem onAddCol_keeps_gridline_flag:
  assumes "op_ctx s = Some c" and "editable c"
    and "xLineHandleRef (op_refs s) = Some xHandle"
    and "lineHoverIndex (op_refs s) = (rowIndex, colIndex)"
    and "pos = (case getPos s of None \<Rightarrow> 0 | Some None \<Rightarrow> 0 | Some (Some p) \<Rightarrow> p) + 1"
    and "colCount = (case contentWrapperRef (op_refs s) of
                       None \<Rightarrow> 0
                     | Some w \<Rightarrow> (case trs w of [] \<Rightarrow> 0 | tr # _ \<Rightarrow> tr))"
    and "col1 = selectColCommand pos (if colIndex = int colCount then colIndex - 1 else colIndex)"
    and "col2 = (if colIndex = int colCount then addColAfterCommand else addColBeforeCommand)"
    and "col3 = selectColCommand pos colIndex"
    and "rowCount = (case contentWrapperRef (op_refs s) of None \<Rightarrow> 0 | Some w \<Rightarrow> length (trs w))"
    and "row1 = selectRowCommand pos (if rowIndex = int rowCount then rowIndex - 1 else rowIndex)"
    and "row2 = (if rowIndex = int rowCount then addRowAfterCommand else addRowBeforeCommand)"
    and "row3 = selectRowCommand pos rowIndex"
  shows "op_refs (reached (onAddCol s)) = op_refs s
       \<and> (0 \<le> colIndex \<and> \<not> throws c (calls c) col1 \<and> \<not> throws c (calls c @ [col1]) col2 \<longrightarrow>
            issued (reached (onAddCol s)) = calls c @ [col1, col2, col3]
          \<and> onAddCol s =
              (if throws c (calls c @ [col1, col2]) col3
               then Inl (CommandFailed col3,
                         s\<lparr>op_ctx := Some (c\<lparr>calls := calls c @ [col1, col2, col3]\<rparr>)\<rparr>)
               else Inr (s\<lparr>op_ctx := Some (c\<lparr>calls := calls c @ [col1, col2, col3]\<rparr>)\<rparr>)))
       \<and> (0 \<le> rowIndex \<longrightarrow>
            (\<exists>s'. onAddRow s = Inr s') =
              (\<not> throws c (calls c) row1 \<and> \<not> throws c (calls c @ [row1]) row2
               \<and> \<not> throws c (calls c @ [row1, row2]) row3)
          \<and> xLineHandleRef (op_refs (reached (onAddRow s))) =
              Some (if \<not> throws c (calls c) row1 \<and> \<not> throws c (calls c @ [row1]) row2
                       \<and> \<not> throws c (calls c @ [row1, row2]) row3
                    then xHandle\<lparr>dataset_show := Some ''false''\<rparr>
                    else xHandle))"
proof -
  have r: "fst (lineHoverIndex (op_refs s)) = rowIndex"
    and k: "snd (lineHoverIndex (op_refs s)) = colIndex"
    using assms(4) by simp_all
  have colpart: "issued (reached (onAddCol s)) = calls c @ [col1, col2, col3]
          \<and> onAddCol s =
              (if throws c (calls c @ [col1, col2]) col3
               then Inl (CommandFailed col3,
                         s\<lparr>op_ctx := Some (c\<lparr>calls := calls c @ [col1, col2, col3]\<rparr>)\<rparr>)
               else Inr (s\<lparr>op_ctx := Some (c\<lparr>calls := calls c @ [col1, col2, col3]\<rparr>)\<rparr>))"
    if "0 \<le> colIndex" and "\<not> throws c (calls c) col1" and "\<not> throws c (calls c @ [col1]) col2"
    using that(2,3)
    by (simp add: onAddCol_calls [OF assms(1-3) k that(1) assms(6) assms(5) assms(7-9)]
        three_calls reached_def issued_def)
  have rowpart: "(\<exists>s'. onAddRow s = Inr s') =
              (\<not> throws c (calls c) row1 \<and> \<not> throws c (calls c @ [row1]) row2
               \<and> \<not> throws c (calls c @ [row1, row2]) row3)
          \<and> xLineHandleRef (op_refs (reached (onAddRow s))) =
              Some (if \<not> throws c (calls c) row1 \<and> \<not> throws c (calls c @ [row1]) row2
                       \<and> \<not> throws c (calls c @ [row1, row2]) row3
                    then xHandle\<lparr>dataset_show := Some ''false''\<rparr>
                    else xHandle)"
    if "0 \<le> rowIndex"
    using assms(3)
    by (simp add: onAddRow_calls [OF assms(1-3) r that assms(10) assms(5) assms(11-13)]
        three_calls reached_def)
  show ?thesis
    using colpart rowpart onAddCol_refs [of s] by blast
qed

theorem onAddCol_keeps_gridline_flag_witness:
  "onAddCol (table3 (-1, -1) (-1, 2) True) =
     Inr ((table3 (-1, -1) (-1, 2) True)
       \<lparr>op_ctx := Some ((ctx3 True)
          \<lparr>calls := [selectColCommand 8 1, addColAfterCommand, selectColCommand 8 2]\<rparr>)\<rparr>)
   \<and> xLineHandleRef (op_refs (reached (onAddCol (table3 (-1, -1) (-1, 2) True)))) =
       Some \<lparr>dataset_show = Some ''true''\<rparr>
   \<and> xLineHandleRef (op_refs (reached (onAddRow (table3 (-1, -1) (1, -1) True)))) =
       Some \<lparr>dataset_show = Some ''false''\<rparr>"
proof -
  have c: "op_ctx (table3 (-1, -1) lh True) = Some (ctx3 True)" for lh
    by (simp add: table3_def)
  have ed: "editable (ctx3 True)"
    by (simp add: ctx3_def)
  have x: "xLineHandleRef (op_refs (table3 (-1, -1) lh True)) =
      Some \<lparr>dataset_show = Some ''true''\<rparr>" for lh
    by (simp add: table3_def)
  have l: "lineHoverIndex (op_refs (table3 (-1, -1) lh True)) = (fst lh, snd lh)" for lh
    by (simp add: table3_def)
  have p: "(8::int) = (case getPos (table3 (-1, -1) lh True) of
      None \<Rightarrow> 0 | Some None \<Rightarrow> 0 | Some (Some p) \<Rightarrow> p) + 1" for lh
    by (simp add: table3_def)
  have k: "(2::nat) = (case contentWrapperRef (op_refs (table3 (-1, -1) lh True)) of
      None \<Rightarrow> 0 | Some w \<Rightarrow> (case trs w of [] \<Rightarrow> 0 | tr # _ \<Rightarrow> tr))" for lh
    by (simp add: table3_def)
  have n: "(3::nat) = (case contentWrapperRef (op_refs (table3 (-1, -1) lh True)) of
      None \<Rightarrow> 0 | Some w \<Rightarrow> length (trs w))" for lh
    by (simp add: table3_def)
  have nothrow: "\<not> throws (ctx3 True) log cmd" for log cmd
    by (simp add: ctx3_def)
  note col = onAddCol_keeps_gridline_flag
    [OF c ed x l p k refl refl refl n refl refl refl, of "(-1, 2)"]
  note row = onAddCol_keeps_gridline_flag
    [OF c ed x l p k refl refl refl n refl refl refl, of "(1, -1)"]
  have a: "onAddCol (table3 (-1, -1) (-1, 2) True) =
     Inr ((table3 (-1, -1) (-1, 2) True)
       \<lparr>op_ctx := Some ((ctx3 True)
          \<lparr>calls := [selectColCommand 8 1, addColAfterCommand, selectColCommand 8 2]\<rparr>)\<rparr>)"
    using col [THEN conjunct2, THEN conjunct1] by (simp add: nothrow) (simp add: ctx3_def)
  have b: "xLineHandleRef (op_refs (reached (onAddCol (table3 (-1, -1) (-1, 2) True)))) =
       Some \<lparr>dataset_show = Some ''true''\<rparr>"
    using col [THEN conjunct1] by (simp add: x)
  have d: "xLineHandleRef (op_refs (reached (onAddRow (table3 (-1, -1) (1, -1) True)))) =
       Some \<lparr>dataset_show = Some ''false''\<rparr>"
    using row [THEN conjunct2, THEN conjunct2] by (simp add: nothrow)
  show ?thesis
    using a b d by simp
qed



text \<open>Column selection has no such exception: with a button group on the column handle,
  \<^verbatim>\<open>selectCol\<close> toggles its flag at every index once its call has returned.\<close>

lemma selectCol_always_toggles:
  assumes "op_ctx s = Some c"
    and "colHandleRef (op_refs s) = Some h" and "buttonGroup h = Some g"
    and "pos = (case getPos s of None \<Rightarrow> 0 | Some None \<Rightarrow> 0 | Some (Some p) \<Rightarrow> p) + 1"
    and "cmd = selectColCommand pos (snd (hoverIndex (op_refs s)))"
    and "\<not> throws c (calls c) cmd"
  shows "selectCol s =
           Inr (s\<lparr>op_ctx := Some (c\<lparr>calls := calls c @ [cmd]\<rparr>),
                  op_refs := (op_refs s)
                    \<lparr>colHandleRef := Some (h\<lparr>buttonGroup :=
                       Some (g\<lparr>dataset_show := toggled (dataset_show g)\<rparr>)\<rparr>)\<rparr>\<rparr>)"
  using assms(1-3,5,6)
  by (simp add: selectCol_def Let_def call_returns assms(4) [symmetric])

text \<open>
  C10. The select-row and select-column handlers make their select call whenever a context
  is present, whatever the surface's editable flag and whatever the hover index: neither
  is tested. On a non-editable surface with the hover index \<open>(-1, -1)\<close> the calls go out
  with index \<open>-1\<close>.
\<close>

theorem select_unguarded:
  assumes "op_ctx s = Some c"
    and "pos = (case getPos s of None \<Rightarrow> 0 | Some None \<Rightarrow> 0 | Some (Some p) \<Rightarrow> p) + 1"
  shows "issued (reached (selectRow s)) =
           calls c @ [selectRowCommand pos (fst (hoverIndex (op_refs s)))]
       \<and> issued (reached (selectCol s)) =
           calls c @ [selectColCommand pos (snd (hoverIndex (op_refs s)))]"
proof -
  have row: "issued (reached (selectRow s)) =
      calls c @ [selectRowCommand pos (fst (hoverIndex (op_refs s)))]"
    using assms(1)
    by (simp add: selectRow_def Let_def commands_call_def reached_def issued_def
        assms(2) [symmetric] split: option.splits)
  have col: "issued (reached (selectCol s)) =
      calls c @ [selectColCommand pos (snd (hoverIndex (op_refs s)))]"
    using assms(1)
    by (simp add: selectCol_def Let_def commands_call_def reached_def issued_def
        assms(2) [symmetric] split: option.splits)
  show ?thesis
    using row col by simp
qed

theorem select_unguarded_witness:
  "issued (reached (selectRow (table3 (-1, -1) (-1, -1) False))) = [selectRowCommand 8 (-1)]
   \<and> issued (reached (selectCol (table3 (-1, -1) (-1, -1) False))) = [selectColCommand 8 (-1)]"
proof -
  have c: "op_ctx (table3 (-1, -1) (-1, -1) False) = Some (ctx3 False)"
    by (simp add: table3_def)
  have p: "(8::int) = (case getPos (table3 (-1, -1) (-1, -1) False) of
      None \<Rightarrow> 0 | Some None \<Rightarrow> 0 | Some (Some p) \<Rightarrow> p) + 1"
    by (simp add: table3_def)
  have h: "hoverIndex (op_refs (table3 (-1, -1) (-1, -1) False)) = (-1, -1)"
    by (simp add: table3_def)
  have calls0: "calls (ctx3 False) = []"
    by (simp add: ctx3_def)
  show ?thesis
    using select_unguarded [OF c p] by (simp add: h calls0)
qed

section \<open>Properties of the floating handle controller\<close>

subsection \<open>The middleware list of \<^verbatim>\<open>show\<close>\<close>

text \<open>
  C4, as the spec states it, fails: the spread \<^verbatim>\<open>...this.#floatingUIOptions\<close> comes after the
  \<^verbatim>\<open>middleware\<close> key of the configuration object, so a \<^verbatim>\<open>middleware\<close> key among the
  floating-ui options replaces the whole list. With the override
  \<^verbatim>\<open>{ middleware: [autoPlacement] }\<close> the list handed to \<^verbatim>\<open>computePosition\<close> is that one
  rule, and the flip rule is not its first entry.
\<close>

theorem show_override_counterexample:
  "passedMiddleware (BlockProvider_show active0 (world0 (Some overrideMiddleware) (Some view0))) =
     [Middleware ''autoPlacement'']
   \<and> \<not> flipFirst (passedMiddleware
         (BlockProvider_show active0 (world0 (Some overrideMiddleware) (Some view0))))"
  by (simp add: passedMiddleware_def BlockProvider_show_def world0_def options0_def
      BlockProvider_new_def overrideMiddleware_def noOverrides_def spread_def flipFirst_def
      Let_def)

text \<open>
  C4, amended. With the view in the context, \<^verbatim>\<open>show\<close> makes exactly one call of
  \<^verbatim>\<open>computePosition\<close>. When the floating-ui options have no \<^verbatim>\<open>middleware\<close> key, the list
  it passes is the flip rule, then the offset rule exactly when \<^verbatim>\<open>getOffset\<close> is supplied
  (built from what \<^verbatim>\<open>getOffset\<close> returns for the derive context), then the caller's extra
  rules. When the options have a \<^verbatim>\<open>middleware\<close> key, its list is passed as it is.
\<close>

theorem show_middleware_chain:
  assumes "editorViewCtx w = Some view"
  shows "\<exists>w' virtualEl config.
           BlockProvider_show active w = Inr w'
         \<and> computePositionCalls w' = computePositionCalls w @ [(virtualEl, config)]
         \<and> cfg_middleware config =
             Some (case cfg_middleware (floatingUIOptions (provider w)) of
                     Some ms \<Rightarrow> ms
                   | None \<Rightarrow>
                       Flip #
                       (case getOffset (provider w) of
                          None \<Rightarrow> []
                        | Some f \<Rightarrow> [Offset (f (mkDeriveContext active view (provider w)))])
                       @ middleware (provider w))"
  using assms
  by (simp add: BlockProvider_show_def Let_def spread_def split: option.splits)

lemma show_world0:
  "BlockProvider_show active0 (world0 None (Some view0)) = Inr shown0"
  by (simp add: BlockProvider_show_def world0_def shown0_def options0_def active0_def
      view0_def BlockProvider_new_def mkDeriveContext_def spread_def Let_def)

theorem show_middleware_chain_witness:
  "passedMiddleware (BlockProvider_show active0 (world0 None (Some view0))) =
     [Flip, Offset (OffsetOptions 8), Middleware ''shift'']
   \<and> flipFirst (passedMiddleware (BlockProvider_show active0 (world0 None (Some view0))))"
proof -
  have v: "editorViewCtx (world0 None (Some view0)) = Some view0"
    by (simp add: world0_def)
  obtain w' virtualEl config where
    s: "BlockProvider_show active0 (world0 None (Some view0)) = Inr w'"
    and c: "computePositionCalls w' =
        computePositionCalls (world0 None (Some view0)) @ [(virtualEl, config)]"
    and m: "cfg_middleware config =
        Some (case cfg_middleware (floatingUIOptions (provider (world0 None (Some view0)))) of
                Some ms \<Rightarrow> ms
              | None \<Rightarrow>
                  Flip #
                  (case getOffset (provider (world0 None (Some view0))) of
                     None \<Rightarrow> []
                   | Some f \<Rightarrow>
                       [Offset (f (mkDeriveContext active0 view0
                          (provider (world0 None (Some view0)))))])
                  @ middleware (provider (world0 None (Some view0))))"
    using show_middleware_chain [OF v, of active0] by blast
  have m': "cfg_middleware config = Some [Flip, Offset (OffsetOptions 8), Middleware ''shift'']"
    using m by (simp add: world0_def options0_def BlockProvider_new_def)
  have "passedMiddleware (BlockProvider_show active0 (world0 None (Some view0))) =
      [Flip, Offset (OffsetOptions 8), Middleware ''shift'']"
    by (simp add: passedMiddleware_def s c m')
  then show ?thesis
    by (simp add: flipFirst_def)
qed

subsection \<open>Settling of the position promise\<close>

text \<open>Every \<^verbatim>\<open>show\<close> that returns leaves a computation pending, and only \<^verbatim>\<open>show\<close> starts
  one.\<close>

lemma show_leaves_pending:
  "BlockProvider_show active w = Inr w' \<Longrightarrow> pendingPositions w' = Suc (pendingPositions w)"
  by (auto simp: BlockProvider_show_def Let_def split: option.splits)

text \<open>
  C6. When a pending position computation rejects, the error goes to \<^verbatim>\<open>console.error\<close> and
  nothing else happens: the provider, and with it the element's \<^verbatim>\<open>dataset.show\<close> flag and
  its \<^verbatim>\<open>left\<close>/\<^verbatim>\<open>top\<close> style, is as it was before the rejection; no further call of
  \<^verbatim>\<open>computePosition\<close> is made and nothing is queued (no retry).
\<close>

theorem rejected_position_only_reported:
  assumes "0 < pendingPositions w"
  shows "\<exists>w'. positionSettled (Rejected err) w = Some w'
         \<and> console_error w' = console_error w @ [err]
         \<and> provider w' = provider w
         \<and> dataset_show (element (provider w')) = dataset_show (element (provider w))
         \<and> style_left (element (provider w')) = style_left (element (provider w))
         \<and> style_top (element (provider w')) = style_top (element (provider w))
         \<and> computePositionCalls w' = computePositionCalls w
         \<and> rafQueue w' = rafQueue w
         \<and> Suc (pendingPositions w') = pendingPositions w"
  using assms
  by (cases "pendingPositions w") (simp_all add: positionSettled_def onRejected_def)

theorem rejected_position_only_reported_witness:
  "BlockProvider_show active0 (world0 None (Some view0)) = Inr shown0
   \<and> positionSettled (Rejected ''no layout'') shown0 =
       Some (shown0\<lparr>pendingPositions := 0, console_error := [''no layout'']\<rparr>)
   \<and> dataset_show (element (provider shown0)) = Some ''false''"
proof -
  have p: "0 < pendingPositions shown0"
    by (simp add: shown0_def)
  obtain w' where
    s: "positionSettled (Rejected ''no layout'') shown0 = Some w'"
    and e: "console_error w' = console_error shown0 @ [''no layout'']"
    and "provider w' = provider shown0"
    using rejected_position_only_reported [OF p, of "''no layout''"] by blast
  have "positionSettled (Rejected ''no layout'') shown0 =
      Some (shown0\<lparr>pendingPositions := 0, console_error := [''no layout'']\<rparr>)"
    by (simp add: positionSettled_def onRejected_def shown0_def world0_def)
  moreover have "dataset_show (element (provider shown0)) = Some ''false''"
    by (simp add: shown0_def world0_def BlockProvider_new_def)
  ultimately show ?thesis
    using show_world0 by simp
qed

text \<open>
  C7. \<^verbatim>\<open>hide\<close> does not cancel the computation a \<^verbatim>\<open>show\<close> started: after \<^verbatim>\<open>show\<close> and then
  \<^verbatim>\<open>hide\<close> the flag is \<^verbatim>\<open>'false'\<close>, the computation is still pending, and when it
  resolves its callback writes the position and sets the flag to \<^verbatim>\<open>'true'\<close>.
\<close>

theorem late_position_shows_after_hide:
  assumes "BlockProvider_show active w = Inr w1"
  shows "dataset_show (element (provider (BlockProvider_hide w1))) = Some ''false''
       \<and> (\<exists>w2. positionSettled (Fulfilled x y) (BlockProvider_hide w1) = Some w2
            \<and> dataset_show (element (provider w2)) = Some ''true''
            \<and> style_left (element (provider w2)) = Some (px x)
            \<and> style_top (element (provider w2)) = Some (px y))"
  using assms
  by (auto simp: BlockProvider_show_def BlockProvider_hide_def positionSettled_def
      onFulfilled_def map_element_def Let_def split: option.splits)

theorem late_position_shows_after_hide_witness:
  "BlockProvider_show active0 (world0 None (Some view0)) = Inr shown0
   \<and> dataset_show (element (provider (BlockProvider_hide shown0))) = Some ''false''
   \<and> (\<exists>w2. positionSettled (Fulfilled 12 34) (BlockProvider_hide shown0) = Some w2
        \<and> dataset_show (element (provider w2)) = Some ''true''
        \<and> style_left (element (provider w2)) = Some (px 12)
        \<and> style_top (element (provider w2)) = Some (px 34))"
  using late_position_shows_after_hide [OF show_world0, of 12 34] show_world0
  by simp

text \<open>\<^verbatim>\<open>hide\<close> is idempotent and makes no call of \<^verbatim>\<open>computePosition\<close>.\<close>

lemma hide_idempotent:
  "BlockProvider_hide (BlockProvider_hide w) = BlockProvider_hide w
   \<and> dataset_show (element (provider (BlockProvider_hide w))) = Some ''false''
   \<and> computePositionCalls (BlockProvider_hide w) = computePositionCalls w"
  by (simp add: BlockProvider_hide_def map_element_def)

subsection \<open>Initialization\<close>

lemma updateCallback_initialized:
  "initialized (provider w) \<Longrightarrow> updateCallback w = w"
  by (simp add: updateCallback_def)

lemma updateCallback_funpow_initialized:
  "initialized (provider w) \<Longrightarrow> (updateCallback ^^ n) w = w"
  by (induction n) (simp_all add: updateCallback_initialized)

lemma updatePass_callback:
  assumes "rafQueue w = 0"
  shows "updatePass w = updateCallback w"
proof -
  have same: "w\<lparr>rafQueue := 0\<rparr> = w"
    using assms by (metis world.surjective world.update_convs(6))
  have "updatePass w = updateCallback (w\<lparr>rafQueue := 0\<rparr>)"
    using assms by (simp add: updatePass_def animationFrame_def BlockProvider_update_def)
  then show ?thesis
    by (simp only: same)
qed



text \<open>\<^verbatim>\<open>#init\<close> throws exactly when the view or the block service is missing from the
  context.\<close>

lemma init_fails_iff:
  "(\<exists>e w'. BlockProvider_init w = Inl (e, w')) = (editorViewCtx w = None \<or> \<not> blockServiceInCtx w)"
  by (auto simp: BlockProvider_init_def map_element_def Let_def split: option.splits if_splits)



subsection \<open>Teardown\<close>

text \<open>Every method, callback and move of the surroundings keeps the invariant: in all
  reachable states the service is bound to this provider only when \<^verbatim>\<open>#service\<close> is set.\<close>

lemma subscriptionOwned_updateCallback:
  "subscriptionOwned w \<Longrightarrow> subscriptionOwned (updateCallback w)"
  by (auto simp: subscriptionOwned_def updateCallback_def BlockProvider_init_def
      map_element_def bind_def Let_def split: option.splits if_splits)

lemma subscriptionOwned_funpow:
  "subscriptionOwned w \<Longrightarrow> subscriptionOwned ((updateCallback ^^ n) w)"
  by (induction n) (simp_all add: subscriptionOwned_updateCallback)

lemma reachable_subscriptionOwned:
  "reachable w \<Longrightarrow> subscriptionOwned w"
proof (induction rule: reachable.induct)
  case (start sv options view b body)
  then show ?case by (simp add: subscriptionOwned_def)
next
  case (env_view w view)
  then show ?case by (simp add: subscriptionOwned_def)
next
  case (env_service w b)
  then show ?case by (simp add: subscriptionOwned_def)
next
  case (env_bind w k)
  then show ?case by (simp add: subscriptionOwned_def bind_def)
next
  case (env_unBind w)
  then show ?case by (simp add: subscriptionOwned_def unBind_def)
next
  case (update w)
  then show ?case by (simp add: subscriptionOwned_def BlockProvider_update_def)
next
  case (frame w)
  have "subscriptionOwned (w\<lparr>rafQueue := 0\<rparr>)"
    using frame.IH by (simp add: subscriptionOwned_def)
  then show ?case
    by (simp add: animationFrame_def subscriptionOwned_funpow)
next
  case (show_block w a w')
  then show ?case
    by (auto simp: subscriptionOwned_def BlockProvider_show_def Let_def split: option.splits)
next
  case (hide w)
  then show ?case
    by (simp add: subscriptionOwned_def BlockProvider_hide_def map_element_def)
next
  case (destroy w w')
  then show ?case
    by (auto simp: subscriptionOwned_def BlockProvider_destroy_def map_element_def unBind_def
        Let_def split: if_splits)
next
  case (settled w r w')
  then show ?case
    by (auto simp: subscriptionOwned_def positionSettled_def onFulfilled_def onRejected_def
        map_element_def split: nat.splits settlement.splits)
next
  case (message w m w')
  then show ?case
    by (auto simp: subscriptionOwned_def onMessage_def BlockProvider_show_def
        BlockProvider_hide_def map_element_def Let_def
        split: message.splits option.splits sum.splits)
qed

text \<open>
  C9. \<^verbatim>\<open>destroy\<close> never throws, and a second \<^verbatim>\<open>destroy\<close> leaves the state the first one
  produced. Afterwards the service is not bound to this provider and the element is
  detached. When \<^verbatim>\<open>#service\<close> was never set (no successful \<^verbatim>\<open>update\<close> before), the service is
  not touched at all; when it was set, the slot is empty and the element's listeners are
  removed. The hypothesis is the invariant of the reachable states.
\<close>

theorem destroy_idempotent_safe:
  assumes "subscriptionOwned w"
  shows "\<exists>w1. BlockProvider_destroy w = Inr w1
         \<and> BlockProvider_destroy w1 = Inr w1
         \<and> notify (blockService w1) \<noteq> Some providerHandler
         \<and> parentElement (element (provider w1)) = None
         \<and> (if service (provider w)
             then notify (blockService w1) = None \<and> \<not> serviceEvents (element (provider w1))
             else blockService w1 = blockService w
                \<and> serviceEvents (element (provider w1)) = serviceEvents (element (provider w)))"
  using assms
  by (auto simp: subscriptionOwned_def BlockProvider_destroy_def map_element_def unBind_def
      removeEvent_def Let_def split: if_splits)

theorem destroy_idempotent_safe_witness:
  "BlockProvider_destroy (world0 None None) = Inr (world0 None None)
   \<and> notify (blockService (world0 None None)) = None
   \<and> (\<exists>w1. BlockProvider_destroy (updatePass (world0 None (Some view0))) = Inr w1
        \<and> BlockProvider_destroy w1 = Inr w1
        \<and> notify (blockService w1) = None
        \<and> parentElement (element (provider w1)) = None)"
proof -
  have o0: "subscriptionOwned (world0 None None)"
    by (simp add: subscriptionOwned_def world0_def)
  have s0: "\<not> service (provider (world0 None None))"
    by (simp add: world0_def BlockProvider_new_def)
  have d0: "BlockProvider_destroy (world0 None None) = Inr (world0 None None)"
    by (simp add: BlockProvider_destroy_def map_element_def world0_def BlockProvider_new_def
        options0_def content0_def Let_def)
  have n0: "notify (blockService (world0 None None)) = None"
    by (simp add: world0_def)
  have q1: "rafQueue (world0 None (Some view0)) = 0"
    by (simp add: world0_def)
  have "subscriptionOwned (world0 None (Some view0))"
    by (simp add: subscriptionOwned_def world0_def)
  then have o1: "subscriptionOwned (updatePass (world0 None (Some view0)))"
    using subscriptionOwned_updateCallback [of "world0 None (Some view0)"]
    by (simp add: updatePass_callback q1)
  have s1: "service (provider (updatePass (world0 None (Some view0))))"
    by (simp add: updatePass_callback q1 updateCallback_def BlockProvider_init_def
        world0_def view0_def map_element_def BlockProvider_new_def Let_def)
  show ?thesis
    using destroy_idempotent_safe [OF o0] destroy_idempotent_safe [OF o1] s0 s1 d0 n0
    by auto
qed

text \<open>What \<^verbatim>\<open>destroy\<close> does not do is cancel a callback that \<^verbatim>\<open>update\<close> has queued: when
  \<^verbatim>\<open>destroy\<close> runs between an \<^verbatim>\<open>update\<close> and its animation frame, the frame still
  initializes the provider, which attaches the element and binds to the service.\<close>

lemma queued_update_runs_after_destroy:
  assumes "\<not> initialized (provider w)" and "editorViewCtx w = Some view"
    and "blockServiceInCtx w" and "rafQueue w = 0"
  shows "\<exists>w1. BlockProvider_destroy (BlockProvider_update w) = Inr w1
         \<and> initialized (provider (animationFrame w1))
         \<and> notify (blockService (animationFrame w1)) = Some providerHandler
         \<and> parentElement (element (provider (animationFrame w1))) \<noteq> None"
  using assms
  by (simp add: BlockProvider_destroy_def BlockProvider_update_def animationFrame_def
      updateCallback_def BlockProvider_init_def map_element_def bind_def addEvent_def Let_def)

end
